theory Spec2Isabelle
  imports Complex_Main
begin

section \<open>The numeric type of the fluid model\<close>

text \<open>
  \<^verbatim>\<open>su2double\<close> is a C++ \<^verbatim>\<open>double\<close>. It is modelled by the real numbers extended with
  the three special values of IEEE-754: arithmetic on finite values is exact (no rounding,
  no overflow to infinity, no signed zero), and every operation that involves an infinity,
  a NaN or a division by zero follows the IEEE-754 rules. A zero divisor is taken as
  \<open>+0\<close>, which is what the subtraction of two equal finite values yields under the
  default rounding mode.
\<close>

datatype su2double = Fin real | PInf | NInf | NaN

instantiation su2double :: "{plus, uminus, minus, times, inverse, abs, ord}"
begin

fun plus_su2double :: "su2double \<Rightarrow> su2double \<Rightarrow> su2double" where
  "plus_su2double NaN b = NaN"
| "plus_su2double a NaN = NaN"
| "plus_su2double (Fin a) (Fin b) = Fin (a + b)"
| "plus_su2double PInf NInf = NaN"
| "plus_su2double NInf PInf = NaN"
| "plus_su2double PInf b = PInf"
| "plus_su2double a PInf = PInf"
| "plus_su2double NInf b = NInf"
| "plus_su2double a NInf = NInf"

fun uminus_su2double :: "su2double \<Rightarrow> su2double" where
  "uminus_su2double (Fin a) = Fin (- a)"
| "uminus_su2double PInf = NInf"
| "uminus_su2double NInf = PInf"
| "uminus_su2double NaN = NaN"

definition minus_su2double :: "su2double \<Rightarrow> su2double \<Rightarrow> su2double" where
  "minus_su2double a b = a + (- b)"

fun times_su2double :: "su2double \<Rightarrow> su2double \<Rightarrow> su2double" where
  "times_su2double NaN b = NaN"
| "times_su2double a NaN = NaN"
| "times_su2double (Fin a) (Fin b) = Fin (a * b)"
| "times_su2double (Fin a) PInf = (if a = 0 then NaN else if 0 < a then PInf else NInf)"
| "times_su2double (Fin a) NInf = (if a = 0 then NaN else if 0 < a then NInf else PInf)"
| "times_su2double PInf (Fin b) = (if b = 0 then NaN else if 0 < b then PInf else NInf)"
| "times_su2double NInf (Fin b) = (if b = 0 then NaN else if 0 < b then NInf else PInf)"
| "times_su2double PInf PInf = PInf"
| "times_su2double PInf NInf = NInf"
| "times_su2double NInf PInf = NInf"
| "times_su2double NInf NInf = PInf"

fun divide_su2double :: "su2double \<Rightarrow> su2double \<Rightarrow> su2double" where
  "divide_su2double NaN b = NaN"
| "divide_su2double a NaN = NaN"
| "divide_su2double (Fin a) (Fin b) =
     (if b = 0 then (if a = 0 then NaN else if 0 < a then PInf else NInf)
      else Fin (a / b))"
| "divide_su2double (Fin a) PInf = Fin 0"
| "divide_su2double (Fin a) NInf = Fin 0"
| "divide_su2double PInf (Fin b) = (if 0 \<le> b then PInf else NInf)"
| "divide_su2double NInf (Fin b) = (if 0 \<le> b then NInf else PInf)"
| "divide_su2double PInf b = NaN"
| "divide_su2double NInf b = NaN"

fun inverse_su2double :: "su2double \<Rightarrow> su2double" where
  "inverse_su2double (Fin a) = (if a = 0 then PInf else Fin (1 / a))"
| "inverse_su2double PInf = Fin 0"
| "inverse_su2double NInf = Fin 0"
| "inverse_su2double NaN = NaN"

fun abs_su2double :: "su2double \<Rightarrow> su2double" where
  "abs_su2double (Fin a) = Fin \<bar>a\<bar>"
| "abs_su2double PInf = PInf"
| "abs_su2double NInf = PInf"
| "abs_su2double NaN = NaN"

text \<open>Comparisons are those of IEEE-754: every comparison with a NaN is false.\<close>

fun less_su2double :: "su2double \<Rightarrow> su2double \<Rightarrow> bool" where
  "less_su2double (Fin a) (Fin b) = (a < b)"
| "less_su2double (Fin a) PInf = True"
| "less_su2double NInf (Fin b) = True"
| "less_su2double NInf PInf = True"
| "less_su2double a b = False"

fun less_eq_su2double :: "su2double \<Rightarrow> su2double \<Rightarrow> bool" where
  "less_eq_su2double (Fin a) (Fin b) = (a \<le> b)"
| "less_eq_su2double (Fin a) PInf = True"
| "less_eq_su2double NInf (Fin b) = True"
| "less_eq_su2double NInf PInf = True"
| "less_eq_su2double PInf PInf = True"
| "less_eq_su2double NInf NInf = True"
| "less_eq_su2double a b = False"

instance ..

end


text \<open>
  \<^verbatim>\<open>pow(x, p)\<close> of the C library for a finite exponent \<open>p\<close> that is positive and not an
  integer, the only exponents this file uses: a negative base gives NaN, both infinities
  give \<open>+\<infinity>\<close>, and \<open>pow(0, p) = 0\<close>.
\<close>

fun pow :: "su2double \<Rightarrow> real \<Rightarrow> su2double" where
  "pow (Fin a) p = (if a < 0 then NaN else Fin (a powr p))"
| "pow PInf p = PInf"
| "pow NInf p = PInf"
| "pow NaN p = NaN"

section \<open>Undefined behaviour as an error value\<close>

text \<open>
  Two operations of the source have no defined result on some inputs: the conversion of a
  \<^verbatim>\<open>double\<close> to \<^verbatim>\<open>int\<close> when the truncated value does not fit the 32-bit \<^verbatim>\<open>int\<close> (or the
  value is not finite), and an array read outside the array. Both are results of the model.
\<close>

datatype error = CastOutOfRange | IndexOutOfBounds

fun bind :: "error + 'a \<Rightarrow> ('a \<Rightarrow> error + 'b) \<Rightarrow> error + 'b" where
  "bind (Inl e) k = Inl e"
| "bind (Inr v) k = k v"

text \<open>Truncation toward zero, as the conversion to an integer type does.\<close>

definition trunc :: "real \<Rightarrow> int" where
  "trunc r = (if 0 \<le> r then \<lfloor>r\<rfloor> else \<lceil>r\<rceil>)"

text \<open>
  \<^verbatim>\<open>(int) SU2_TYPE::GetValue(v)\<close>. \<^verbatim>\<open>GetValue\<close> returns the \<^verbatim>\<open>double\<close> held by an
  \<^verbatim>\<open>su2double\<close>, which is the value itself here.
\<close>

fun to_int :: "su2double \<Rightarrow> error + int" where
  "to_int (Fin r) =
     (if - 2147483648 \<le> trunc r \<and> trunc r \<le> 2147483647 then Inr (trunc r)
      else Inl CastOutOfRange)"
| "to_int a = Inl CastOutOfRange"

text \<open>\<^verbatim>\<open>(su2double) i\<close> and the implicit conversion of an \<^verbatim>\<open>int\<close> operand.\<close>

definition of_int_d :: "int \<Rightarrow> su2double" where
  "of_int_d i = Fin (real_of_int i)"

text \<open>\<^verbatim>\<open>z[k]\<close> on an array held as a list.\<close>

definition rd :: "su2double list \<Rightarrow> int \<Rightarrow> error + su2double" where
  "rd z k = (if 0 \<le> k \<and> k < int (length z) then Inr (z ! nat k) else Inl IndexOutOfBounds)"

section \<open>The root finder\<close>

text \<open>
  The local variables of \<^verbatim>\<open>rootFunc\<close> that live across iterations: \<^verbatim>\<open>x\<close>, \<^verbatim>\<open>y\<close>,
  \<^verbatim>\<open>x0\<close> and \<^verbatim>\<open>n\<close>.
\<close>

record secant =
  sx :: su2double
  sy :: su2double
  sx0 :: su2double
  sn :: int

text \<open>The condition of the \<^verbatim>\<open>while\<close> loop: \<^verbatim>\<open>abs(y)>1e-9*x0 && n<20\<close>.\<close>

definition loop_cond :: "secant \<Rightarrow> bool" where
  "loop_cond s \<longleftrightarrow> \<bar>sy s\<bar> > Fin (1 / 10 ^ 9) * sx0 s \<and> sn s < 20"

text \<open>One pass through the loop body, given the value \<open>y0\<close> of \<^verbatim>\<open>func(x0)\<close>.\<close>

definition loop_body :: "secant \<Rightarrow> su2double \<Rightarrow> secant" where
  "loop_body s y0 =
     (let dy = sy s - y0;
          dx = sx s - sx0 s
      in \<lparr>sx = sx0 s, sy = y0, sx0 = sx0 s - y0 * dx / dy, sn = sn s + 1\<rparr>)"

function rootFunc_loop :: "(su2double \<Rightarrow> error + su2double) \<Rightarrow> secant \<Rightarrow> error + secant" where
  "rootFunc_loop func s =
     (if loop_cond s
      then (case func (sx0 s) of
              Inl e \<Rightarrow> Inl e
            | Inr y0 \<Rightarrow> rootFunc_loop func (loop_body s y0))
      else Inr s)"
  by pat_completeness auto
termination
  by (relation "measure (\<lambda>(func, s). nat (20 - sn s))")
     (auto simp: loop_cond_def loop_body_def Let_def)

declare rootFunc_loop.simps [simp del]

text \<open>
  \<^verbatim>\<open>rootFunc\<close> up to the end of its loop: the initial guess, the first evaluation of
  \<^verbatim>\<open>func\<close>, the second point \<^verbatim>\<open>x0 = 1.01*x0\<close>, and the loop. The result is the state in
  which the loop was left.
\<close>

definition rootFunc_run :: "su2double \<Rightarrow> (su2double \<Rightarrow> error + su2double) \<Rightarrow> error + secant" where
  "rootFunc_run x0 func =
     bind (func x0) (\<lambda>y. rootFunc_loop func \<lparr>sx = x0, sy = y, sx0 = Fin (101 / 100) * x0, sn = 0\<rparr>)"

definition rootFunc :: "su2double \<Rightarrow> (su2double \<Rightarrow> error + su2double) \<Rightarrow> error + su2double" where
  "rootFunc x0 func = bind (rootFunc_run x0 func) (\<lambda>s. Inr (sx s))"

text \<open>A residual function written in C++ that always returns: a total function.\<close>

definition total_func :: "(su2double \<Rightarrow> su2double) \<Rightarrow> su2double \<Rightarrow> error + su2double" where
  "total_func g v = Inr (g v)"

section \<open>The tables and the fluid state\<close>

text \<open>
  The data members that \<^verbatim>\<open>CTableFluid.cpp\<close> reads but never writes, declared in the
  class header: the two grid sizes, the four coefficients of the saturation energy, the
  bounds of the two axes and the eleven tables, each an array of \<^verbatim>\<open>Nx*Ny\<close> values. The
  grid sizes are positive compile-time constants whose product is an array bound, so the
  index arithmetic on them stays inside \<^verbatim>\<open>int\<close>.
\<close>

record table =
  Nx :: int
  Ny :: int
  coefesat :: "su2double \<times> su2double \<times> su2double \<times> su2double"
  Rho :: "su2double \<times> su2double"
  De :: "su2double \<times> su2double"
  P_rhoDe :: "su2double list"
  T_rhoDe :: "su2double list"
  h_rhoDe :: "su2double list"
  s_rhoDe :: "su2double list"
  cv_rhoDe :: "su2double list"
  cp_rhoDe :: "su2double list"
  a2_rhoDe :: "su2double list"
  dPdrho_e_rhoDe :: "su2double list"
  dPde_rho_rhoDe :: "su2double list"
  dTdrho_e_rhoDe :: "su2double list"
  dTde_rho_rhoDe :: "su2double list"

text \<open>The data members that the file writes, and the flag set by the constructor.\<close>

record fluid =
  ComputeEntropy :: bool
  Density :: su2double
  StaticEnergy :: su2double
  Pressure :: su2double
  Temperature :: su2double
  Entropy :: su2double
  SoundSpeed2 :: su2double
  dPdrho_e :: su2double
  dPde_rho :: su2double
  dTdrho_e :: su2double
  dTde_rho :: su2double
  Cv :: su2double
  Cp :: su2double

text \<open>
  The constructor. Its second argument is the object as the constructor of the base class
  \<^verbatim>\<open>CFluidModel\<close> leaves it.
\<close>

definition CTableFluid :: "bool \<Rightarrow> fluid \<Rightarrow> fluid" where
  "CTableFluid CompEntropy base = base\<lparr>ComputeEntropy := CompEntropy\<rparr>"

section \<open>Saturation energy\<close>

text \<open>
  Modelled from the spec: the constants \<^verbatim>\<open>ONE2\<close> and \<^verbatim>\<open>ONE3\<close> are defined outside
  \<^verbatim>\<open>CTableFluid.cpp\<close>; the spec gives the two terms as the square root and the cube root
  of the density, so the exponents are one half and one third.
\<close>

definition ONE2 :: real where
  "ONE2 = 1 / 2"

definition ONE3 :: real where
  "ONE3 = 1 / 3"

definition esat_rho :: "table \<Rightarrow> su2double \<Rightarrow> su2double" where
  "esat_rho tab rho =
     (case coefesat tab of (c0, c1, c2, c3) \<Rightarrow>
        c0 + c1 * rho + c2 * pow rho ONE2 + c3 * pow rho ONE3)"

section \<open>Interpolation\<close>

text \<open>The fractional index of line 44: \<^verbatim>\<open>(xi-x[0])/(x[1]-x[0]) *(Nx-1)\<close>.\<close>

definition frac_index :: "su2double \<Rightarrow> su2double \<times> su2double \<Rightarrow> int \<Rightarrow> su2double" where
  "frac_index xi x N = (xi - fst x) / (snd x - fst x) * of_int_d (N - 1)"

text \<open>The bounded left index of lines 46 and 47: \<^verbatim>\<open>min(max(0,(int) GetValue(ix)), Nx-2)\<close>.\<close>

definition left_index :: "su2double \<Rightarrow> int \<Rightarrow> error + int" where
  "left_index ix N = bind (to_int ix) (\<lambda>c. Inr (min (max 0 c) (N - 2)))"

definition interpolateTable ::
  "table \<Rightarrow> su2double \<Rightarrow> su2double \<Rightarrow> su2double \<times> su2double \<Rightarrow> su2double \<times> su2double
     \<Rightarrow> su2double list \<Rightarrow> error + su2double" where
  "interpolateTable tab xi yi x y z =
     (let ix = frac_index xi x (Nx tab);
          iy = frac_index yi y (Ny tab)
      in bind (left_index ix (Nx tab)) (\<lambda>ixl.
         bind (left_index iy (Ny tab)) (\<lambda>iyl.
         let ixr = ixl + 1;
             iyr = iyl + 1
         in bind (rd z (ixl * Ny tab + iyl)) (\<lambda>zll.
            bind (rd z (ixl * Ny tab + iyr)) (\<lambda>zlr.
            bind (rd z (ixr * Ny tab + iyl)) (\<lambda>zrl.
            bind (rd z (ixr * Ny tab + iyr)) (\<lambda>zrr.
            let zil = zll + (iy - of_int_d iyl) * (zlr - zll);
                zir = zrl + (iy - of_int_d iyl) * (zrr - zrl)
            in Inr (zil + (ix - of_int_d ixl) * (zir - zil)))))))))"

section \<open>State variables from interpolation of the rho-e table\<close>

definition P_rhoe :: "table \<Rightarrow> su2double \<Rightarrow> su2double \<Rightarrow> error + su2double" where
  "P_rhoe tab rhoi ei =
     (let Dei = ei - esat_rho tab rhoi
      in interpolateTable tab rhoi Dei (Rho tab) (De tab) (P_rhoDe tab))"

definition T_rhoe :: "table \<Rightarrow> su2double \<Rightarrow> su2double \<Rightarrow> error + su2double" where
  "T_rhoe tab rhoi ei =
     (let Dei = ei - esat_rho tab rhoi
      in interpolateTable tab rhoi Dei (Rho tab) (De tab) (T_rhoDe tab))"

definition h_rhoe :: "table \<Rightarrow> su2double \<Rightarrow> su2double \<Rightarrow> error + su2double" where
  "h_rhoe tab rhoi ei =
     (let Dei = ei - esat_rho tab rhoi
      in interpolateTable tab rhoi Dei (Rho tab) (De tab) (h_rhoDe tab))"

definition s_rhoe :: "table \<Rightarrow> su2double \<Rightarrow> su2double \<Rightarrow> error + su2double" where
  "s_rhoe tab rhoi ei =
     (let Dei = ei - esat_rho tab rhoi
      in interpolateTable tab rhoi Dei (Rho tab) (De tab) (s_rhoDe tab))"

definition cv_rhoe :: "table \<Rightarrow> su2double \<Rightarrow> su2double \<Rightarrow> error + su2double" where
  "cv_rhoe tab rhoi ei =
     (let Dei = ei - esat_rho tab rhoi
      in interpolateTable tab rhoi Dei (Rho tab) (De tab) (cv_rhoDe tab))"

definition cp_rhoe :: "table \<Rightarrow> su2double \<Rightarrow> su2double \<Rightarrow> error + su2double" where
  "cp_rhoe tab rhoi ei =
     (let Dei = ei - esat_rho tab rhoi
      in interpolateTable tab rhoi Dei (Rho tab) (De tab) (cp_rhoDe tab))"

definition a2_rhoe :: "table \<Rightarrow> su2double \<Rightarrow> su2double \<Rightarrow> error + su2double" where
  "a2_rhoe tab rhoi ei =
     (let Dei = ei - esat_rho tab rhoi
      in interpolateTable tab rhoi Dei (Rho tab) (De tab) (a2_rhoDe tab))"

definition dPdrho_e_rhoe :: "table \<Rightarrow> su2double \<Rightarrow> su2double \<Rightarrow> error + su2double" where
  "dPdrho_e_rhoe tab rhoi ei =
     (let Dei = ei - esat_rho tab rhoi
      in interpolateTable tab rhoi Dei (Rho tab) (De tab) (dPdrho_e_rhoDe tab))"

definition dPde_rho_rhoe :: "table \<Rightarrow> su2double \<Rightarrow> su2double \<Rightarrow> error + su2double" where
  "dPde_rho_rhoe tab rhoi ei =
     (let Dei = ei - esat_rho tab rhoi
      in interpolateTable tab rhoi Dei (Rho tab) (De tab) (dPde_rho_rhoDe tab))"

definition dTdrho_e_rhoe :: "table \<Rightarrow> su2double \<Rightarrow> su2double \<Rightarrow> error + su2double" where
  "dTdrho_e_rhoe tab rhoi ei =
     (let Dei = ei - esat_rho tab rhoi
      in interpolateTable tab rhoi Dei (Rho tab) (De tab) (dTdrho_e_rhoDe tab))"

definition dTde_rho_rhoe :: "table \<Rightarrow> su2double \<Rightarrow> su2double \<Rightarrow> error + su2double" where
  "dTde_rho_rhoe tab rhoi ei =
     (let Dei = ei - esat_rho tab rhoi
      in interpolateTable tab rhoi Dei (Rho tab) (De tab) (dTde_rho_rhoDe tab))"

section \<open>State variables from root finding\<close>

text \<open>
  The closure \<^verbatim>\<open>[this,rhoi,Pi](su2double x){return P_rhoe(rhoi,x)-Pi;}\<close> and its siblings:
  a property at fixed density minus its target.
\<close>

definition residual ::
  "(su2double \<Rightarrow> error + su2double) \<Rightarrow> su2double \<Rightarrow> su2double \<Rightarrow> error + su2double" where
  "residual prop target v = bind (prop v) (\<lambda>p. Inr (p - target))"

definition e_rhoP :: "table \<Rightarrow> su2double \<Rightarrow> su2double \<Rightarrow> error + su2double" where
  "e_rhoP tab rhoi Pi =
     (let ei0 = esat_rho tab rhoi + fst (De tab)
      in rootFunc ei0 (residual (\<lambda>x. P_rhoe tab rhoi x) Pi))"

definition e_rhoT :: "table \<Rightarrow> su2double \<Rightarrow> su2double \<Rightarrow> error + su2double" where
  "e_rhoT tab rhoi Ti =
     (let ei0 = esat_rho tab rhoi + fst (De tab)
      in rootFunc ei0 (residual (\<lambda>x. T_rhoe tab rhoi x) Ti))"

definition e_rhoh :: "table \<Rightarrow> su2double \<Rightarrow> su2double \<Rightarrow> error + su2double" where
  "e_rhoh tab rhoi hi =
     (let ei0 = esat_rho tab rhoi + fst (De tab)
      in rootFunc ei0 (residual (\<lambda>x. h_rhoe tab rhoi x) hi))"

definition rho_PT :: "table \<Rightarrow> su2double \<Rightarrow> su2double \<Rightarrow> error + su2double" where
  "rho_PT tab Pi Ti =
     (let rhoi0 = fst (Rho tab)
      in rootFunc rhoi0 (residual (\<lambda>x. bind (e_rhoP tab x Pi) (\<lambda>e. T_rhoe tab x e)) Ti))"

definition rho_Ps :: "table \<Rightarrow> su2double \<Rightarrow> su2double \<Rightarrow> error + su2double" where
  "rho_Ps tab Pi si =
     (let rhoi0 = fst (Rho tab)
      in rootFunc rhoi0 (residual (\<lambda>x. bind (e_rhoP tab x Pi) (\<lambda>e. s_rhoe tab x e)) si))"

definition rho_hs :: "table \<Rightarrow> su2double \<Rightarrow> su2double \<Rightarrow> error + su2double" where
  "rho_hs tab hi si =
     (let rhoi0 = fst (Rho tab)
      in rootFunc rhoi0 (residual (\<lambda>x. bind (e_rhoh tab x hi) (\<lambda>e. s_rhoe tab x e)) si))"

section \<open>Setting the state\<close>

definition SetTDState_rhoe :: "table \<Rightarrow> su2double \<Rightarrow> su2double \<Rightarrow> fluid \<Rightarrow> error + fluid" where
  "SetTDState_rhoe tab rho e st =
     bind (P_rhoe tab rho e) (\<lambda>p.
     bind (T_rhoe tab rho e) (\<lambda>t.
     bind (a2_rhoe tab rho e) (\<lambda>a2.
     bind (dPdrho_e_rhoe tab rho e) (\<lambda>pr.
     bind (dPde_rho_rhoe tab rho e) (\<lambda>pe.
     bind (dTdrho_e_rhoe tab rho e) (\<lambda>tr.
     bind (dTde_rho_rhoe tab rho e) (\<lambda>te.
     bind (cv_rhoe tab rho e) (\<lambda>cv.
     bind (cp_rhoe tab rho e) (\<lambda>cp.
     let st' = st\<lparr>Density := rho, StaticEnergy := e, Pressure := p, Temperature := t,
                   SoundSpeed2 := a2, dPdrho_e := pr, dPde_rho := pe, dTdrho_e := tr,
                   dTde_rho := te, Cv := cv, Cp := cp\<rparr>
     in if ComputeEntropy st
        then bind (s_rhoe tab rho e) (\<lambda>s. Inr (st'\<lparr>Entropy := s\<rparr>))
        else Inr st')))))))))"

definition SetEnergy_Prho :: "table \<Rightarrow> su2double \<Rightarrow> su2double \<Rightarrow> fluid \<Rightarrow> error + fluid" where
  "SetEnergy_Prho tab P rho st =
     bind (e_rhoP tab rho P) (\<lambda>e. Inr (st\<lparr>StaticEnergy := e\<rparr>))"

definition SetTDState_Prho :: "table \<Rightarrow> su2double \<Rightarrow> su2double \<Rightarrow> fluid \<Rightarrow> error + fluid" where
  "SetTDState_Prho tab P rho st =
     bind (e_rhoP tab rho P) (\<lambda>e. SetTDState_rhoe tab rho e st)"

definition SetTDState_rhoT :: "table \<Rightarrow> su2double \<Rightarrow> su2double \<Rightarrow> fluid \<Rightarrow> error + fluid" where
  "SetTDState_rhoT tab rho T st =
     bind (e_rhoT tab rho T) (\<lambda>e. SetTDState_rhoe tab rho e st)"

definition SetTDState_rhoh :: "table \<Rightarrow> su2double \<Rightarrow> su2double \<Rightarrow> fluid \<Rightarrow> error + fluid" where
  "SetTDState_rhoh tab rho h st =
     bind (e_rhoh tab rho h) (\<lambda>e. SetTDState_rhoe tab rho e st)"

definition SetTDState_PT :: "table \<Rightarrow> su2double \<Rightarrow> su2double \<Rightarrow> fluid \<Rightarrow> error + fluid" where
  "SetTDState_PT tab P T st =
     bind (rho_PT tab P T) (\<lambda>rho. SetTDState_Prho tab P rho st)"

definition SetTDState_Ps :: "table \<Rightarrow> su2double \<Rightarrow> su2double \<Rightarrow> fluid \<Rightarrow> error + fluid" where
  "SetTDState_Ps tab P s st =
     bind (rho_Ps tab P s) (\<lambda>rho. SetTDState_Prho tab P rho st)"

definition SetTDState_hs :: "table \<Rightarrow> su2double \<Rightarrow> su2double \<Rightarrow> fluid \<Rightarrow> error + fluid" where
  "SetTDState_hs tab h s st =
     bind (rho_hs tab h s) (\<lambda>rho. SetTDState_rhoh tab rho h st)"

section \<open>The (P, T) path in the words of the specification\<close>

text \<open>
  The specification describes the state setters through two primitives. \<open>invertEnergy\<close>
  seeds the root finder at \<open>esat(\<rho>) + De[0]\<close> and runs it on the residual
  \<open>propertyFn(\<rho>, e) - target\<close>. The (P, \<rho>) path is \<open>invertEnergy(\<rho>, P, P_rhoe)\<close>
  followed by the evaluation at (\<rho>, e). The (P, T) path is an outer root-find over the
  density seeded at \<open>Rho[0]\<close> with residual \<open>T_rhoe(\<rho>, invertEnergy(\<rho>, P, P_rhoe)) - T\<close>,
  followed by the (P, \<rho>) path. These definitions follow that text, to be compared with
  the functions of the source.
\<close>

definition spec_invertEnergy ::
  "table \<Rightarrow> su2double \<Rightarrow> su2double \<Rightarrow> (table \<Rightarrow> su2double \<Rightarrow> su2double \<Rightarrow> error + su2double)
     \<Rightarrow> error + su2double" where
  "spec_invertEnergy tab rho target propertyFn =
     rootFunc (esat_rho tab rho + fst (De tab))
       (\<lambda>e. bind (propertyFn tab rho e) (\<lambda>p. Inr (p - target)))"

definition spec_Prho_path :: "table \<Rightarrow> su2double \<Rightarrow> su2double \<Rightarrow> fluid \<Rightarrow> error + fluid" where
  "spec_Prho_path tab P rho st =
     bind (spec_invertEnergy tab rho P P_rhoe) (\<lambda>e. SetTDState_rhoe tab rho e st)"

definition spec_PT_path :: "table \<Rightarrow> su2double \<Rightarrow> su2double \<Rightarrow> fluid \<Rightarrow> error + fluid" where
  "spec_PT_path tab P T st =
     bind (rootFunc (fst (Rho tab))
             (\<lambda>rho. bind (spec_invertEnergy tab rho P P_rhoe) (\<lambda>e.
                     bind (T_rhoe tab rho e) (\<lambda>t. Inr (t - T)))))
          (\<lambda>rho. spec_Prho_path tab P rho st)"

section \<open>Concrete inputs\<close>


definition two_point_fn :: "su2double \<Rightarrow> su2double \<Rightarrow> su2double \<Rightarrow> su2double \<Rightarrow> su2double" where
  "two_point_fn a ya yb v = (if v = a then ya else yb)"

definition linear_fn :: "su2double \<Rightarrow> su2double \<Rightarrow> su2double" where
  "linear_fn c v = v - c"

definition recip_fn :: "su2double \<Rightarrow> su2double" where
  "recip_fn v = Fin 1 / v"

text \<open>
  A grid of two by two nodes over densities 1 to 2 and energy deviations 1 to 2. The
  pressure grows with the energy deviation, by one part in a million millions over the cell.
\<close>

definition example_table :: table where
  "example_table =
     \<lparr>Nx = 2, Ny = 2,
      coefesat = (Fin 1, Fin 2, Fin 3, Fin 4),
      Rho = (Fin 1, Fin 2),
      De = (Fin 1, Fin 2),
      P_rhoDe = map Fin [0, 1 / 10 ^ 12, 0, 1 / 10 ^ 12],
      T_rhoDe = map Fin [300, 400, 310, 410],
      h_rhoDe = map Fin [1, 2, 3, 4],
      s_rhoDe = map Fin [5, 6, 7, 8],
      cv_rhoDe = map Fin [9, 10, 11, 12],
      cp_rhoDe = map Fin [13, 14, 15, 16],
      a2_rhoDe = map Fin [17, 18, 19, 20],
      dPdrho_e_rhoDe = map Fin [21, 22, 23, 24],
      dPde_rho_rhoDe = map Fin [25, 26, 27, 28],
      dTdrho_e_rhoDe = map Fin [29, 30, 31, 32],
      dTde_rho_rhoDe = map Fin [33, 34, 35, 36]\<rparr>"

definition example_state :: "bool \<Rightarrow> fluid" where
  "example_state b =
     \<lparr>ComputeEntropy = b, Density = Fin 0, StaticEnergy = Fin 0, Pressure = Fin 0,
      Temperature = Fin 0, Entropy = Fin 0, SoundSpeed2 = Fin 0, dPdrho_e = Fin 0,
      dPde_rho = Fin 0, dTdrho_e = Fin 0, dTde_rho = Fin 0, Cv = Fin 0, Cp = Fin 0\<rparr>"

section \<open>Evaluating the model\<close>

lemmas fp_simps = minus_su2double_def of_int_d_def trunc_def rd_def Let_def
lemmas interp_simps = interpolateTable_def frac_index_def left_index_def fp_simps

lemma bind_eq_Inr: "bind m k = Inr v \<longleftrightarrow> (\<exists>a. m = Inr a \<and> k a = Inr v)"
  by (cases m) simp_all

lemma bind_assoc: "bind (bind m f) g = bind m (\<lambda>a. bind (f a) g)"
  by (cases m) simp_all

lemma residual_eq_Inr:
  "residual prop target v = Inr y \<longleftrightarrow> (\<exists>p. prop v = Inr p \<and> y = p - target)"
  by (auto simp: residual_def bind_eq_Inr)

lemma residual_fun: "residual prop target = (\<lambda>v. bind (prop v) (\<lambda>p. Inr (p - target)))"
  by (rule ext) (simp add: residual_def)

section \<open>The loop of the root finder\<close>

lemma loop_body_sn: "sn (loop_body s y0) = sn s + 1"
  by (simp add: loop_body_def Let_def)

lemma loop_body_sx: "sx (loop_body s y0) = sx0 s" "sy (loop_body s y0) = y0"
  by (simp_all add: loop_body_def Let_def)

lemma rootFunc_loop_exit:
  "rootFunc_loop func s = Inr t \<Longrightarrow>
     \<not> loop_cond t \<and> sn s \<le> sn t \<and> (sn s \<le> 20 \<longrightarrow> sn t \<le> 20)
     \<and> (func (sx s) = Inr (sy s) \<longrightarrow> func (sx t) = Inr (sy t))"
proof (induction func s rule: rootFunc_loop.induct)
  case (1 func s)
  show ?case
  proof (cases "loop_cond s")
    case False
    with "1.prems" show ?thesis by (simp add: rootFunc_loop.simps)
  next
    case True
    then obtain y0 where y0: "func (sx0 s) = Inr y0"
      and run: "rootFunc_loop func (loop_body s y0) = Inr t"
      using "1.prems" by (simp add: rootFunc_loop.simps split: sum.splits)
    from "1.IH" [OF True y0 run] True y0 show ?thesis
      by (simp add: loop_body_sn loop_body_sx loop_cond_def)
  qed
qed

lemma rootFunc_loop_returns:
  "\<exists>t. rootFunc_loop (total_func g) s = Inr t"
proof (induction "total_func g" s rule: rootFunc_loop.induct)
  case (1 s)
  show ?case
  proof (cases "loop_cond s")
    case False
    then show ?thesis by (simp add: rootFunc_loop.simps)
  next
    case True
    have "total_func g (sx0 s) = Inr (g (sx0 s))" by (simp add: total_func_def)
    from "1.hyps" [OF True this] True this show ?thesis
      by (simp add: rootFunc_loop.simps)
  qed
qed

lemma rootFunc_run_exit:
  assumes "rootFunc_run x0 func = Inr t"
  shows "\<not> loop_cond t \<and> 0 \<le> sn t \<and> sn t \<le> 20 \<and> func (sx t) = Inr (sy t)"
proof -
  from assms obtain y where y: "func x0 = Inr y"
    and run: "rootFunc_loop func \<lparr>sx = x0, sy = y, sx0 = Fin (101 / 100) * x0, sn = 0\<rparr> = Inr t"
    by (auto simp: rootFunc_run_def bind_eq_Inr)
  from rootFunc_loop_exit [OF run] y show ?thesis by simp
qed

lemma linear_run:
  "rootFunc_run (Fin 1) (total_func (linear_fn (Fin 5)))
     = Inr \<lparr>sx = Fin 5, sy = Fin 0, sx0 = Fin 5, sn = 2\<rparr>"
  by (simp add: rootFunc_run_def total_func_def linear_fn_def rootFunc_loop.simps loop_cond_def
        loop_body_def minus_su2double_def)

lemma recip_run:
  "rootFunc_run (Fin 1) (total_func recip_fn)
     = Inr \<lparr>sx = Fin (220273 / 20), sy = Fin (20 / 220273), sx0 = Fin (891023 / 50), sn = 20\<rparr>"
  by (simp add: rootFunc_run_def total_func_def recip_fn_def rootFunc_loop.simps loop_cond_def
        loop_body_def minus_su2double_def)


text \<open>
  C2. For every seed and every residual function that returns a value, \<^verbatim>\<open>rootFunc\<close> returns:
  the loop is left after at most 20 iterations (\<^verbatim>\<open>n\<close> counts them, from 0), whether or
  not the tolerance was met, and the value returned is the iterate \<^verbatim>\<open>x\<close> of the state
  in which the loop was left. No error value arises from the root finder itself.
\<close>

theorem rootFunc_terminates:
  "\<exists>t. rootFunc_run x0 (total_func g) = Inr t \<and> 0 \<le> sn t \<and> sn t \<le> 20
        \<and> sy t = g (sx t) \<and> rootFunc x0 (total_func g) = Inr (sx t)"
proof -
  let ?s = "\<lparr>sx = x0, sy = g x0, sx0 = Fin (101 / 100) * x0, sn = 0\<rparr>"
  obtain t where t: "rootFunc_loop (total_func g) ?s = Inr t"
    using rootFunc_loop_returns by blast
  from rootFunc_loop_exit [OF t]
  have "0 \<le> sn t" "sn t \<le> 20" "sy t = g (sx t)"
    by (simp_all add: total_func_def)
  with t show ?thesis
    by (simp add: rootFunc_run_def rootFunc_def total_func_def)
qed

text \<open>
  The residual \<open>1/x\<close> from the seed 1 never meets the tolerance: the loop is left by the
  cap, after exactly 20 iterations, and the last iterate is returned.
\<close>

theorem rootFunc_terminates_witness:
  "rootFunc_run (Fin 1) (total_func recip_fn)
     = Inr \<lparr>sx = Fin (220273 / 20), sy = Fin (20 / 220273), sx0 = Fin (891023 / 50), sn = 20\<rparr>
   \<and> \<bar>Fin (20 / 220273)\<bar> > Fin (1 / 10 ^ 9) * Fin (891023 / 50)
   \<and> rootFunc (Fin 1) (total_func recip_fn) = Inr (Fin (220273 / 20))"
  using rootFunc_terminates [of "Fin 1" recip_fn] recip_run
  by (auto simp: recip_fn_def)

text \<open>
  C1 as stated fails. With the seed 1 and a residual that is 1 at the seed and
  \<open>1 - 1e-12\<close> elsewhere, the first secant step moves \<^verbatim>\<open>x0\<close> to \<open>1e10 + 1\<close>, and the
  loop is left as converged after one iteration, because \<open>|f(x)| \<le> 1e-9 \<cdot> x0\<close> for this
  current \<^verbatim>\<open>x0\<close>, while \<open>|f(x)|\<close> is far above \<open>1e-9\<close> times the seed.
\<close>

theorem rootFunc_tolerance_counterexample:
  "rootFunc_run (Fin 1) (total_func (two_point_fn (Fin 1) (Fin 1) (Fin (1 - 1 / 10 ^ 12))))
     = Inr \<lparr>sx = Fin (101 / 100), sy = Fin (1 - 1 / 10 ^ 12), sx0 = Fin 10000000001, sn = 1\<rparr>
   \<and> \<not> \<bar>Fin (1 - 1 / 10 ^ 12)\<bar> > Fin (1 / 10 ^ 9) * Fin 10000000001
   \<and> \<not> \<bar>Fin (1 - 1 / 10 ^ 12)\<bar> \<le> Fin (1 / 10 ^ 9) * Fin 1"
  by (simp add: rootFunc_run_def total_func_def two_point_fn_def rootFunc_loop.simps loop_cond_def
        loop_body_def minus_su2double_def)

text \<open>
  The state in which a run is left is either the initial state or the result of one pass
  through the loop body from a state in which the loop condition held.
\<close>

lemma rootFunc_loop_last_step:
  "rootFunc_loop func s = Inr t \<Longrightarrow>
     t = s \<or> (\<exists>p::secant. sn s \<le> sn p \<and> loop_cond p \<and> func (sx0 p) = Inr (sy t)
                 \<and> t = \<lparr>sx = sx0 p, sy = sy t,
                        sx0 = sx0 p - sy t * (sx p - sx0 p) / (sy p - sy t), sn = sn p + 1\<rparr>)"
proof (induction func s rule: rootFunc_loop.induct)
  case (1 func s)
  show ?case
  proof (cases "loop_cond s")
    case False
    with "1.prems" show ?thesis by (simp add: rootFunc_loop.simps)
  next
    case True
    then obtain y0 where y0: "func (sx0 s) = Inr y0"
      and run: "rootFunc_loop func (loop_body s y0) = Inr t"
      using "1.prems" by (simp add: rootFunc_loop.simps split: sum.splits)
    from "1.IH" [OF True y0 run] show ?thesis
    proof
      assume t: "t = loop_body s y0"
      then have "sy t = y0" by (simp add: loop_body_def Let_def)
      with t True y0 have "sn s \<le> sn s \<and> loop_cond s \<and> func (sx0 s) = Inr (sy t)
                 \<and> t = \<lparr>sx = sx0 s, sy = sy t,
                        sx0 = sx0 s - sy t * (sx s - sx0 s) / (sy s - sy t), sn = sn s + 1\<rparr>"
        by (simp add: loop_body_def Let_def)
      then show ?thesis by blast
    next
      assume "\<exists>p::secant. sn (loop_body s y0) \<le> sn p \<and> loop_cond p \<and> func (sx0 p) = Inr (sy t)
                 \<and> t = \<lparr>sx = sx0 p, sy = sy t,
                        sx0 = sx0 p - sy t * (sx p - sx0 p) / (sy p - sy t), sn = sn p + 1\<rparr>"
      then obtain p where p: "sn (loop_body s y0) \<le> sn p" "loop_cond p" "func (sx0 p) = Inr (sy t)"
        "t = \<lparr>sx = sx0 p, sy = sy t,
                        sx0 = sx0 p - sy t * (sx p - sx0 p) / (sy p - sy t), sn = sn p + 1\<rparr>"
        by blast
      from p(1) have "sn s \<le> sn p" by (simp add: loop_body_sn)
      with p show ?thesis by blast
    qed
  qed
qed

text \<open>
  C1, amended. The loop is left in a state exactly when \<^verbatim>\<open>abs(y)>1e-9*x0 && n<20\<close> is false
  for the current values of its variables. \<^verbatim>\<open>x0\<close> is not the seed. At the first test it is
  1.01 times the seed. Each iteration replaces \<^verbatim>\<open>x\<close> by \<^verbatim>\<open>x0\<close>, \<^verbatim>\<open>y\<close> by \<open>f(x0)\<close> and
  \<^verbatim>\<open>x0\<close> by the secant point \<open>x0 - f(x0)\<cdot>(x - x0)/(y - f(x0))\<close>, and the next test reads
  this new \<^verbatim>\<open>x0\<close>. So a run that is left before the cap has \<open>\<not> |f(x)| > 1e-9 \<cdot> x0\<close> for
  the final \<^verbatim>\<open>x\<close> and \<^verbatim>\<open>x0\<close>, where the final \<^verbatim>\<open>x0\<close> is 1.01 times the seed if no
  iteration was made and otherwise the secant point computed by the last iteration.
\<close>

theorem rootFunc_stop_condition:
  "(rootFunc_loop func s = Inr s) = (\<not> (\<bar>sy s\<bar> > Fin (1 / 10 ^ 9) * sx0 s \<and> sn s < 20))
   \<and> (func x0 = Inr y \<longrightarrow>
        rootFunc_run x0 func
          = rootFunc_loop func \<lparr>sx = x0, sy = y, sx0 = Fin (101 / 100) * x0, sn = 0\<rparr>)
   \<and> (\<bar>sy s\<bar> > Fin (1 / 10 ^ 9) * sx0 s \<and> sn s < 20 \<and> func (sx0 s) = Inr y0 \<longrightarrow>
        rootFunc_loop func s
          = rootFunc_loop func \<lparr>sx = sx0 s, sy = y0,
                                 sx0 = sx0 s - y0 * (sx s - sx0 s) / (sy s - y0), sn = sn s + 1\<rparr>)
   \<and> (rootFunc_run x0 func = Inr t \<longrightarrow>
        func (sx t) = Inr (sy t) \<and> (sn t < 20 \<longrightarrow> \<not> \<bar>sy t\<bar> > Fin (1 / 10 ^ 9) * sx0 t)
        \<and> (if sn t = 0 then sx t = x0 \<and> sx0 t = Fin (101 / 100) * x0
            else \<exists>p::secant. \<bar>sy p\<bar> > Fin (1 / 10 ^ 9) * sx0 p \<and> sn p + 1 = sn t \<and> sx t = sx0 p
                   \<and> sx0 t = sx0 p - sy t * (sx p - sx0 p) / (sy p - sy t)))"
proof (intro conjI impI)
  show "(rootFunc_loop func s = Inr s) = (\<not> (\<bar>sy s\<bar> > Fin (1 / 10 ^ 9) * sx0 s \<and> sn s < 20))"
  proof (cases "loop_cond s")
    case False
    then show ?thesis by (simp add: rootFunc_loop.simps) (simp add: loop_cond_def)
  next
    case True
    have "rootFunc_loop func s \<noteq> Inr s"
    proof
      assume "rootFunc_loop func s = Inr s"
      from rootFunc_loop_exit [OF this] True show False by simp
    qed
    with True show ?thesis by (simp add: loop_cond_def)
  qed
next
  assume "func x0 = Inr y"
  then show "rootFunc_run x0 func
          = rootFunc_loop func \<lparr>sx = x0, sy = y, sx0 = Fin (101 / 100) * x0, sn = 0\<rparr>"
    by (simp add: rootFunc_run_def)
next
  assume "\<bar>sy s\<bar> > Fin (1 / 10 ^ 9) * sx0 s \<and> sn s < 20 \<and> func (sx0 s) = Inr y0"
  then have "loop_cond s" and "func (sx0 s) = Inr y0" by (simp_all add: loop_cond_def)
  then show "rootFunc_loop func s
          = rootFunc_loop func \<lparr>sx = sx0 s, sy = y0,
                                 sx0 = sx0 s - y0 * (sx s - sx0 s) / (sy s - y0), sn = sn s + 1\<rparr>"
    by (subst rootFunc_loop.simps) (simp add: loop_body_def Let_def)
next
  assume run: "rootFunc_run x0 func = Inr t"
  from rootFunc_run_exit [OF run] show "func (sx t) = Inr (sy t)" by simp
next
  assume run: "rootFunc_run x0 func = Inr t" and "sn t < 20"
  with rootFunc_run_exit [OF run] show "\<not> \<bar>sy t\<bar> > Fin (1 / 10 ^ 9) * sx0 t"
    by (simp add: loop_cond_def)
next
  assume run: "rootFunc_run x0 func = Inr t"
  then obtain y where y: "func x0 = Inr y"
    and loop: "rootFunc_loop func \<lparr>sx = x0, sy = y, sx0 = Fin (101 / 100) * x0, sn = 0\<rparr> = Inr t"
    by (auto simp: rootFunc_run_def bind_eq_Inr)
  from rootFunc_loop_last_step [OF loop]
  show "if sn t = 0 then sx t = x0 \<and> sx0 t = Fin (101 / 100) * x0
        else \<exists>p::secant. \<bar>sy p\<bar> > Fin (1 / 10 ^ 9) * sx0 p \<and> sn p + 1 = sn t \<and> sx t = sx0 p
               \<and> sx0 t = sx0 p - sy t * (sx p - sx0 p) / (sy p - sy t)"
  proof
    assume "t = \<lparr>sx = x0, sy = y, sx0 = Fin (101 / 100) * x0, sn = 0\<rparr>"
    then show ?thesis by simp
  next
    assume "\<exists>p::secant. sn \<lparr>sx = x0, sy = y, sx0 = Fin (101 / 100) * x0, sn = 0\<rparr> \<le> sn p \<and> loop_cond p
               \<and> func (sx0 p) = Inr (sy t)
               \<and> t = \<lparr>sx = sx0 p, sy = sy t,
                      sx0 = sx0 p - sy t * (sx p - sx0 p) / (sy p - sy t), sn = sn p + 1\<rparr>"
    then obtain p where p: "0 \<le> sn p" "loop_cond p"
      "t = \<lparr>sx = sx0 p, sy = sy t,
                      sx0 = sx0 p - sy t * (sx p - sx0 p) / (sy p - sy t), sn = sn p + 1\<rparr>"
      by auto
    from p(3) have f: "sn t = sn p + 1" "sx t = sx0 p"
      "sx0 t = sx0 p - sy t * (sx p - sx0 p) / (sy p - sy t)"
      by (metis secant.select_convs(4), metis secant.select_convs(1), metis secant.select_convs(3))
    from p(1) f(1) have n: "sn t \<noteq> 0" by simp
    from p(2) have c: "\<bar>sy p\<bar> > Fin (1 / 10 ^ 9) * sx0 p" by (simp add: loop_cond_def)
    from c f have "\<bar>sy p\<bar> > Fin (1 / 10 ^ 9) * sx0 p \<and> sn p + 1 = sn t \<and> sx t = sx0 p
               \<and> sx0 t = sx0 p - sy t * (sx p - sx0 p) / (sy p - sy t)"
      by simp
    then have "\<exists>p::secant. \<bar>sy p\<bar> > Fin (1 / 10 ^ 9) * sx0 p \<and> sn p + 1 = sn t \<and> sx t = sx0 p
               \<and> sx0 t = sx0 p - sy t * (sx p - sx0 p) / (sy p - sy t)"
      by (rule exI)
    with n show ?thesis by simp
  qed
qed

theorem rootFunc_stop_condition_witness:
  "rootFunc_run (Fin 1) (total_func (linear_fn (Fin 5)))
     = Inr \<lparr>sx = Fin 5, sy = Fin 0, sx0 = Fin 5, sn = 2\<rparr>
   \<and> total_func (linear_fn (Fin 5)) (Fin 5) = Inr (Fin 0)
   \<and> (2::int) < 20 \<and> \<not> \<bar>Fin 0\<bar> > Fin (1 / 10 ^ 9) * Fin 5
   \<and> rootFunc_loop (total_func (linear_fn (Fin 5)))
        \<lparr>sx = Fin 1, sy = Fin (- 4), sx0 = Fin (101 / 100), sn = 0\<rparr>
      = rootFunc_loop (total_func (linear_fn (Fin 5)))
        \<lparr>sx = Fin (101 / 100), sy = Fin (- 399 / 100), sx0 = Fin 5, sn = 1\<rparr>
   \<and> (\<exists>p::secant. \<bar>sy p\<bar> > Fin (1 / 10 ^ 9) * sx0 p \<and> sn p + 1 = 2 \<and> Fin 5 = sx0 p
          \<and> Fin 5 = sx0 p - Fin 0 * (sx p - sx0 p) / (sy p - Fin 0))"
proof -
  note inst = rootFunc_stop_condition [of "total_func (linear_fn (Fin 5))"
      "\<lparr>sx = Fin 1, sy = Fin (- 4), sx0 = Fin (101 / 100), sn = 0\<rparr>" "Fin 1" "Fin (- 4)"
      "Fin (- 399 / 100)"
      "\<lparr>sx = Fin 5, sy = Fin 0, sx0 = Fin 5, sn = 2\<rparr>"]
  from inst [THEN conjunct2, THEN conjunct2, THEN conjunct1]
  have step: "rootFunc_loop (total_func (linear_fn (Fin 5)))
        \<lparr>sx = Fin 1, sy = Fin (- 4), sx0 = Fin (101 / 100), sn = 0\<rparr>
      = rootFunc_loop (total_func (linear_fn (Fin 5)))
        \<lparr>sx = Fin (101 / 100), sy = Fin (- 399 / 100), sx0 = Fin 5, sn = 1\<rparr>"
    by (simp add: total_func_def linear_fn_def minus_su2double_def)
  from inst [THEN conjunct2, THEN conjunct2, THEN conjunct2] linear_run
  have last: "\<exists>p::secant. \<bar>sy p\<bar> > Fin (1 / 10 ^ 9) * sx0 p \<and> sn p + 1 = 2 \<and> Fin 5 = sx0 p
          \<and> Fin 5 = sx0 p - Fin 0 * (sx p - sx0 p) / (sy p - Fin 0)"
    by simp
  from inst [THEN conjunct2, THEN conjunct2, THEN conjunct2] linear_run
  have "total_func (linear_fn (Fin 5)) (Fin 5) = Inr (Fin 0)"
    and "\<not> \<bar>Fin 0\<bar> > Fin (1 / 10 ^ 9) * Fin 5"
    by simp_all
  with linear_run step last show ?thesis by simp
qed





section \<open>Interpolation\<close>

lemma trunc_of_int: "trunc (real_of_int i) = i"
  by (simp add: trunc_def)

lemma to_int_of_int:
  "- 2147483648 \<le> i \<Longrightarrow> i \<le> 2147483647 \<Longrightarrow> to_int (Fin (real_of_int i)) = Inr i"
  by (simp add: trunc_of_int)

lemma left_index_bounds:
  "2 \<le> N \<Longrightarrow> left_index ix N = Inr l \<Longrightarrow> 0 \<le> l \<and> l \<le> N - 2"
  by (cases "to_int ix") (auto simp: left_index_def)

lemma flat_index_bounds:
  fixes a b :: int
  assumes "0 \<le> a" "a \<le> nx - 1" "0 \<le> b" "b \<le> ny - 1"
  shows "0 \<le> a * ny + b \<and> a * ny + b < nx * ny"
proof -
  from assms have ny: "0 \<le> ny" by linarith
  have "a * ny \<le> (nx - 1) * ny"
    using assms(2) ny by (rule mult_right_mono)
  then have "a * ny + b \<le> nx * ny - 1"
    using assms(4) by (simp add: algebra_simps)
  moreover have "0 \<le> a * ny" using assms(1) ny by simp
  ultimately show ?thesis using assms(3) by linarith
qed

lemma rd_in_range:
  "0 \<le> k \<Longrightarrow> k < int (length z) \<Longrightarrow> rd z k = Inr (z ! nat k)"
  by (simp add: rd_def)

lemma interpolateTable_in_bounds:
  assumes N: "2 \<le> Nx tab" "2 \<le> Ny tab"
    and len: "int (length z) = Nx tab * Ny tab"
    and l: "left_index (frac_index xi x (Nx tab)) (Nx tab) = Inr ixl"
    and r: "left_index (frac_index yi y (Ny tab)) (Ny tab) = Inr iyl"
  shows "0 \<le> ixl \<and> ixl \<le> Nx tab - 2 \<and> 0 \<le> iyl \<and> iyl \<le> Ny tab - 2
    \<and> 0 \<le> ixl * Ny tab + iyl \<and> (ixl + 1) * Ny tab + (iyl + 1) \<le> Nx tab * Ny tab - 1
    \<and> (\<exists>v. interpolateTable tab xi yi x y z = Inr v)"
proof -
  from left_index_bounds [OF N(1) l] have a: "0 \<le> ixl" "ixl \<le> Nx tab - 2" by simp_all
  from left_index_bounds [OF N(2) r] have b: "0 \<le> iyl" "iyl \<le> Ny tab - 2" by simp_all
  have ll: "0 \<le> ixl * Ny tab + iyl \<and> ixl * Ny tab + iyl < Nx tab * Ny tab"
    using a b by (intro flat_index_bounds) simp_all
  have lr: "0 \<le> ixl * Ny tab + (iyl + 1) \<and> ixl * Ny tab + (iyl + 1) < Nx tab * Ny tab"
    using a b by (intro flat_index_bounds) simp_all
  have rl: "0 \<le> (ixl + 1) * Ny tab + iyl \<and> (ixl + 1) * Ny tab + iyl < Nx tab * Ny tab"
    using a b by (intro flat_index_bounds) simp_all
  have rr: "0 \<le> (ixl + 1) * Ny tab + (iyl + 1) \<and> (ixl + 1) * Ny tab + (iyl + 1) < Nx tab * Ny tab"
    using a b by (intro flat_index_bounds) simp_all
  have "\<exists>v. interpolateTable tab xi yi x y z = Inr v"
    using ll lr rl rr l r len
    by (simp add: interpolateTable_def Let_def rd_in_range)
  with a b ll rr show ?thesis by simp
qed

lemma node_fraction:
  fixes d n i :: real
  assumes "d \<noteq> 0" "n \<noteq> 0"
  shows "(x0 + i * d / n + - x0) / d * n = i"
proof -
  have "(x0 + i * d / n + - x0) / d * n = (i * d / n) / d * n" by simp
  also have "\<dots> = i" using assms by simp
  finally show ?thesis .
qed

lemma frac_index_node:
  assumes "x0 \<noteq> x1" "2 \<le> N"
  shows "frac_index (Fin (x0 + real_of_int i * (x1 - x0) / real_of_int (N - 1))) (Fin x0, Fin x1) N
         = Fin (real_of_int i)"
proof -
  from assms have d: "x1 - x0 \<noteq> 0" and n: "real_of_int (N - 1) \<noteq> 0" by simp_all
  from node_fraction [OF d n] d show ?thesis
    by (simp add: frac_index_def minus_su2double_def of_int_d_def)
qed

lemma left_index_node:
  assumes "0 \<le> i" "i \<le> N - 1" "N \<le> 2147483647"
  shows "left_index (Fin (real_of_int i)) N = Inr (min i (N - 2))"
  using assms by (simp add: left_index_def trunc_of_int)

lemma blend_node:
  fixes a b :: real
  assumes "0 \<le> i" "i \<le> N - 1"
  shows "Fin a + (Fin (real_of_int i) - of_int_d (min i (N - 2))) * (Fin b - Fin a)
         = Fin (if i = N - 1 then b else a)"
  using assms by (auto simp: minus_su2double_def of_int_d_def min_def)


lemma rd_map_Fin:
  "0 \<le> k \<Longrightarrow> k < int (length z) \<Longrightarrow> rd (map Fin z) k = Inr (Fin (z ! nat k))"
  by (simp add: rd_def)

lemma interpolateTable_cell:
  assumes len: "int (length z) = Nx tab * Ny tab"
    and l: "left_index (frac_index xi x (Nx tab)) (Nx tab) = Inr ixl"
    and r: "left_index (frac_index yi y (Ny tab)) (Ny tab) = Inr iyl"
    and a: "0 \<le> ixl" "ixl \<le> Nx tab - 2" and b: "0 \<le> iyl" "iyl \<le> Ny tab - 2"
  shows "interpolateTable tab xi yi x y (map Fin z) =
     Inr ((Fin (z ! nat (ixl * Ny tab + iyl))
             + (frac_index yi y (Ny tab) - of_int_d iyl)
               * (Fin (z ! nat (ixl * Ny tab + (iyl + 1))) - Fin (z ! nat (ixl * Ny tab + iyl))))
          + (frac_index xi x (Nx tab) - of_int_d ixl)
            * ((Fin (z ! nat ((ixl + 1) * Ny tab + iyl))
                 + (frac_index yi y (Ny tab) - of_int_d iyl)
                   * (Fin (z ! nat ((ixl + 1) * Ny tab + (iyl + 1)))
                        - Fin (z ! nat ((ixl + 1) * Ny tab + iyl))))
               - (Fin (z ! nat (ixl * Ny tab + iyl))
                    + (frac_index yi y (Ny tab) - of_int_d iyl)
                      * (Fin (z ! nat (ixl * Ny tab + (iyl + 1)))
                           - Fin (z ! nat (ixl * Ny tab + iyl))))))"
proof -
  have ll: "0 \<le> ixl * Ny tab + iyl \<and> ixl * Ny tab + iyl < Nx tab * Ny tab"
    using a b by (intro flat_index_bounds) simp_all
  have lr: "0 \<le> ixl * Ny tab + (iyl + 1) \<and> ixl * Ny tab + (iyl + 1) < Nx tab * Ny tab"
    using a b by (intro flat_index_bounds) simp_all
  have rl: "0 \<le> (ixl + 1) * Ny tab + iyl \<and> (ixl + 1) * Ny tab + iyl < Nx tab * Ny tab"
    using a b by (intro flat_index_bounds) simp_all
  have rr: "0 \<le> (ixl + 1) * Ny tab + (iyl + 1) \<and> (ixl + 1) * Ny tab + (iyl + 1) < Nx tab * Ny tab"
    using a b by (intro flat_index_bounds) simp_all
  from ll len have 1: "rd (map Fin z) (ixl * Ny tab + iyl) = Inr (Fin (z ! nat (ixl * Ny tab + iyl)))"
    by (intro rd_map_Fin) simp_all
  from lr len have 2: "rd (map Fin z) (ixl * Ny tab + (iyl + 1)) = Inr (Fin (z ! nat (ixl * Ny tab + (iyl + 1))))"
    by (intro rd_map_Fin) simp_all
  from rl len have 3: "rd (map Fin z) ((ixl + 1) * Ny tab + iyl) = Inr (Fin (z ! nat ((ixl + 1) * Ny tab + iyl)))"
    by (intro rd_map_Fin) simp_all
  from rr len have 4: "rd (map Fin z) ((ixl + 1) * Ny tab + (iyl + 1)) = Inr (Fin (z ! nat ((ixl + 1) * Ny tab + (iyl + 1))))"
    by (intro rd_map_Fin) simp_all
  show ?thesis
    unfolding interpolateTable_def Let_def l r bind.simps 1 2 3 4 ..
qed

text \<open>
  C3 holds only while the conversion to \<^verbatim>\<open>int\<close> is defined. The source converts the
  fractional index to \<^verbatim>\<open>int\<close> first and clamps afterwards, so for a query far outside the
  grid, whose fractional index is beyond the range of \<^verbatim>\<open>int\<close>, the conversion has no
  defined result and the clamping is not reached: here the density \<open>2 ^ 32\<close> on the grid
  from 1 to 2. The lemma \<open>interpolateTable_in_bounds\<close> above is the part that holds: whenever
  both conversions are defined, the left indices are in \<open>[0, Nx-2]\<close> and \<open>[0, Ny-2]\<close>, the
  four reads are inside the table, and a value is returned.
\<close>

theorem interpolateTable_cast_undefined:
  "interpolateTable example_table (Fin 4294967296) (Fin 1) (Fin 1, Fin 2) (Fin 1, Fin 2)
     (P_rhoDe example_table) = Inl CastOutOfRange"
  by (simp add: interp_simps example_table_def)

text \<open>
  C4. On a grid of at least two by two nodes with distinct axis bounds, a query exactly at
  the coordinates of node \<open>(i, j)\<close> returns the stored value \<^verbatim>\<open>z[i*Ny+j]\<close>, in exact
  arithmetic on finite table values. This includes the last row and the last column, where
  the left index is clamped to \<^verbatim>\<open>Nx-2\<close> or \<^verbatim>\<open>Ny-2\<close> and the weight is one.
\<close>

theorem interpolateTable_at_node:
  assumes N: "2 \<le> Nx tab" "2 \<le> Ny tab" "Nx tab \<le> 2147483647" "Ny tab \<le> 2147483647"
    and ax: "x0 \<noteq> x1" "y0 \<noteq> y1"
    and len: "int (length z) = Nx tab * Ny tab"
    and i: "0 \<le> i" "i \<le> Nx tab - 1" and j: "0 \<le> j" "j \<le> Ny tab - 1"
  shows "interpolateTable tab
           (Fin (x0 + real_of_int i * (x1 - x0) / real_of_int (Nx tab - 1)))
           (Fin (y0 + real_of_int j * (y1 - y0) / real_of_int (Ny tab - 1)))
           (Fin x0, Fin x1) (Fin y0, Fin y1) (map Fin z)
         = Inr (Fin (z ! nat (i * Ny tab + j)))"
proof -
  let ?xi = "Fin (x0 + real_of_int i * (x1 - x0) / real_of_int (Nx tab - 1))"
  let ?yi = "Fin (y0 + real_of_int j * (y1 - y0) / real_of_int (Ny tab - 1))"
  let ?ixl = "min i (Nx tab - 2)" and ?iyl = "min j (Ny tab - 2)"
  have fx: "frac_index ?xi (Fin x0, Fin x1) (Nx tab) = Fin (real_of_int i)"
    using ax(1) N(1) by (rule frac_index_node)
  have fy: "frac_index ?yi (Fin y0, Fin y1) (Ny tab) = Fin (real_of_int j)"
    using ax(2) N(2) by (rule frac_index_node)
  have l: "left_index (frac_index ?xi (Fin x0, Fin x1) (Nx tab)) (Nx tab) = Inr ?ixl"
    unfolding fx using i N(3) by (rule left_index_node)
  have r: "left_index (frac_index ?yi (Fin y0, Fin y1) (Ny tab)) (Ny tab) = Inr ?iyl"
    unfolding fy using j N(4) by (rule left_index_node)
  have a: "0 \<le> ?ixl" "?ixl \<le> Nx tab - 2" using i N by simp_all
  have b: "0 \<le> ?iyl" "?iyl \<le> Ny tab - 2" using j N by simp_all
  have row: "Fin (z ! nat (k * Ny tab + ?iyl))
               + (Fin (real_of_int j) - of_int_d ?iyl)
                 * (Fin (z ! nat (k * Ny tab + (?iyl + 1))) - Fin (z ! nat (k * Ny tab + ?iyl)))
             = Fin (z ! nat (k * Ny tab + j))" for k
  proof (cases "j = Ny tab - 1")
    case True
    then have "?iyl + 1 = j" by simp
    with blend_node [OF j] True show ?thesis by simp
  next
    case False
    then have "?iyl = j" using j by simp
    with blend_node [OF j] False show ?thesis by simp
  qed
  have col: "Fin (z ! nat (?ixl * Ny tab + j))
               + (Fin (real_of_int i) - of_int_d ?ixl)
                 * (Fin (z ! nat ((?ixl + 1) * Ny tab + j)) - Fin (z ! nat (?ixl * Ny tab + j)))
             = Fin (z ! nat (i * Ny tab + j))"
  proof (cases "i = Nx tab - 1")
    case True
    then have "?ixl + 1 = i" by simp
    with blend_node [OF i] True show ?thesis by simp
  next
    case False
    then have "?ixl = i" using i by simp
    with blend_node [OF i] False show ?thesis by simp
  qed
  show ?thesis
    unfolding interpolateTable_cell [OF len l r a b] fx fy row col ..
qed

text \<open>The node (1, 1) of the example grid, the last row and the last column.\<close>

theorem interpolateTable_at_node_witness:
  "2 \<le> Nx example_table \<and> 2 \<le> Ny example_table
   \<and> interpolateTable example_table (Fin 2) (Fin 2) (Fin 1, Fin 2) (Fin 1, Fin 2)
       (map Fin [300, 400, 310, 410]) = Inr (Fin 410)"
  using interpolateTable_at_node [of example_table 1 2 1 2 "[300, 400, 310, 410]" 1 1]
  by (simp add: example_table_def)

section \<open>The example table evaluated\<close>

lemma example_esat: "esat_rho example_table (Fin 1) = Fin 10"
  by (simp add: esat_rho_def example_table_def)

lemma example_node00:
  "interpolateTable example_table (Fin 1) (Fin 11 - Fin 10) (Fin 1, Fin 2) (Fin 1, Fin 2)
     (map Fin [a, b, c, d]) = Inr (Fin a)"
  by (simp add: interp_simps example_table_def)

lemma example_node01:
  "interpolateTable example_table (Fin 1) (Fin 12 - Fin 10) (Fin 1, Fin 2) (Fin 1, Fin 2)
     (map Fin [a, b, c, d]) = Inr (Fin b)"
  by (simp add: interp_simps example_table_def)

lemma example_tabs:
  "Rho example_table = (Fin 1, Fin 2)" "De example_table = (Fin 1, Fin 2)"
  "P_rhoDe example_table = map Fin [0, 1 / 10 ^ 12, 0, 1 / 10 ^ 12]"
  "T_rhoDe example_table = map Fin [300, 400, 310, 410]"
  "s_rhoDe example_table = map Fin [5, 6, 7, 8]"
  "cv_rhoDe example_table = map Fin [9, 10, 11, 12]"
  "cp_rhoDe example_table = map Fin [13, 14, 15, 16]"
  "a2_rhoDe example_table = map Fin [17, 18, 19, 20]"
  "dPdrho_e_rhoDe example_table = map Fin [21, 22, 23, 24]"
  "dPde_rho_rhoDe example_table = map Fin [25, 26, 27, 28]"
  "dTdrho_e_rhoDe example_table = map Fin [29, 30, 31, 32]"
  "dTde_rho_rhoDe example_table = map Fin [33, 34, 35, 36]"
  by (simp_all add: example_table_def)

lemma example_P: "P_rhoe example_table (Fin 1) (Fin 11) = Inr (Fin 0)"
  unfolding P_rhoe_def Let_def example_esat example_tabs by (rule example_node00)

lemma example_P12: "P_rhoe example_table (Fin 1) (Fin 12) = Inr (Fin (1 / 10 ^ 12))"
  unfolding P_rhoe_def Let_def example_esat example_tabs by (rule example_node01)

lemma example_T: "T_rhoe example_table (Fin 1) (Fin 11) = Inr (Fin 300)"
  unfolding T_rhoe_def Let_def example_esat example_tabs by (rule example_node00)

lemma example_run:
  "rootFunc_run (Fin 11) (residual (P_rhoe example_table (Fin 1)) (Fin (1 / 10 ^ 12)))
     = Inr \<lparr>sx = Fin 11, sy = Fin (- (1 / 10 ^ 12)), sx0 = Fin (1111 / 100), sn = 0\<rparr>"
  by (simp add: rootFunc_run_def residual_def example_P rootFunc_loop.simps loop_cond_def
        minus_su2double_def)

lemma example_e_rhoP:
  "e_rhoP example_table (Fin 1) (Fin (1 / 10 ^ 12)) = Inr (Fin 11)"
  unfolding e_rhoP_def Let_def example_esat example_tabs
  using example_run by (simp add: rootFunc_def)

lemma example_rho_PT:
  "rho_PT example_table (Fin (1 / 10 ^ 12)) (Fin 300) = Inr (Fin 1)"
  unfolding rho_PT_def Let_def example_tabs
  using example_e_rhoP example_T
  by (simp add: rootFunc_def rootFunc_run_def residual_def
        rootFunc_loop.simps loop_cond_def minus_su2double_def)

lemma example_lookups:
  "a2_rhoe example_table (Fin 1) (Fin 11) = Inr (Fin 17)"
  "dPdrho_e_rhoe example_table (Fin 1) (Fin 11) = Inr (Fin 21)"
  "dPde_rho_rhoe example_table (Fin 1) (Fin 11) = Inr (Fin 25)"
  "dTdrho_e_rhoe example_table (Fin 1) (Fin 11) = Inr (Fin 29)"
  "dTde_rho_rhoe example_table (Fin 1) (Fin 11) = Inr (Fin 33)"
  "cv_rhoe example_table (Fin 1) (Fin 11) = Inr (Fin 9)"
  "cp_rhoe example_table (Fin 1) (Fin 11) = Inr (Fin 13)"
  "s_rhoe example_table (Fin 1) (Fin 11) = Inr (Fin 5)"
  unfolding a2_rhoe_def dPdrho_e_rhoe_def dPde_rho_rhoe_def dTdrho_e_rhoe_def dTde_rho_rhoe_def
    cv_rhoe_def cp_rhoe_def s_rhoe_def Let_def example_esat example_tabs
  by (rule example_node00)+

lemma example_SetTDState_rhoe:
  "SetTDState_rhoe example_table (Fin 1) (Fin 11) (example_state b)
     = Inr \<lparr>ComputeEntropy = b, Density = Fin 1, StaticEnergy = Fin 11, Pressure = Fin 0,
            Temperature = Fin 300, Entropy = (if b then Fin 5 else Fin 0), SoundSpeed2 = Fin 17,
            dPdrho_e = Fin 21, dPde_rho = Fin 25, dTdrho_e = Fin 29, dTde_rho = Fin 33,
            Cv = Fin 9, Cp = Fin 13\<rparr>"
  by (simp add: SetTDState_rhoe_def example_P example_T example_lookups example_state_def)

lemma example_SetEnergy_Prho:
  "SetEnergy_Prho example_table (Fin (1 / 10 ^ 12)) (Fin 1) (example_state True)
     = Inr ((example_state True)\<lparr>StaticEnergy := Fin 11\<rparr>)"
  using example_e_rhoP by (simp add: SetEnergy_Prho_def)

section \<open>Saturation energy and the property accessors\<close>

lemma pow_half: "0 \<le> r \<Longrightarrow> pow (Fin r) ONE2 = Fin (sqrt r)"
  by (simp add: ONE2_def powr_half_sqrt)

lemma pow_third: "0 \<le> r \<Longrightarrow> pow (Fin r) ONE3 = Fin (root 3 r)"
proof (cases "r = 0")
  case True
  then show ?thesis by simp
next
  case False
  assume "0 \<le> r"
  with False have "0 < r" by simp
  then have "root 3 r = r powr (1 / 3)"
    using root_powr_inverse [of 3 r] by simp
  with \<open>0 < r\<close> show ?thesis by (simp add: ONE3_def)
qed

text \<open>
  C5. Each of the eleven accessors looks its table up at the density and at the energy
  deviation \<open>e - e_sat(\<rho>)\<close>, not at the energy itself; for a density that is finite and not
  negative, and finite coefficients, \<open>e_sat(\<rho>)\<close> is \<open>c0 + c1\<cdot>\<rho>\<close> plus \<open>c2\<close> times the
  square root of \<open>\<rho>\<close> plus \<open>c3\<close> times its cube root.
\<close>

theorem accessors_shift_energy:
  "P_rhoe tab rho e = interpolateTable tab rho (e - esat_rho tab rho) (Rho tab) (De tab) (P_rhoDe tab)
   \<and> T_rhoe tab rho e = interpolateTable tab rho (e - esat_rho tab rho) (Rho tab) (De tab) (T_rhoDe tab)
   \<and> h_rhoe tab rho e = interpolateTable tab rho (e - esat_rho tab rho) (Rho tab) (De tab) (h_rhoDe tab)
   \<and> s_rhoe tab rho e = interpolateTable tab rho (e - esat_rho tab rho) (Rho tab) (De tab) (s_rhoDe tab)
   \<and> cv_rhoe tab rho e = interpolateTable tab rho (e - esat_rho tab rho) (Rho tab) (De tab) (cv_rhoDe tab)
   \<and> cp_rhoe tab rho e = interpolateTable tab rho (e - esat_rho tab rho) (Rho tab) (De tab) (cp_rhoDe tab)
   \<and> a2_rhoe tab rho e = interpolateTable tab rho (e - esat_rho tab rho) (Rho tab) (De tab) (a2_rhoDe tab)
   \<and> dPdrho_e_rhoe tab rho e
       = interpolateTable tab rho (e - esat_rho tab rho) (Rho tab) (De tab) (dPdrho_e_rhoDe tab)
   \<and> dPde_rho_rhoe tab rho e
       = interpolateTable tab rho (e - esat_rho tab rho) (Rho tab) (De tab) (dPde_rho_rhoDe tab)
   \<and> dTdrho_e_rhoe tab rho e
       = interpolateTable tab rho (e - esat_rho tab rho) (Rho tab) (De tab) (dTdrho_e_rhoDe tab)
   \<and> dTde_rho_rhoe tab rho e
       = interpolateTable tab rho (e - esat_rho tab rho) (Rho tab) (De tab) (dTde_rho_rhoDe tab)
   \<and> (coefesat tab = (Fin c0, Fin c1, Fin c2, Fin c3) \<longrightarrow> 0 \<le> r \<longrightarrow>
        esat_rho tab (Fin r) = Fin (c0 + c1 * r + c2 * sqrt r + c3 * root 3 r))"
  by (simp add: P_rhoe_def T_rhoe_def h_rhoe_def s_rhoe_def cv_rhoe_def cp_rhoe_def a2_rhoe_def
        dPdrho_e_rhoe_def dPde_rho_rhoe_def dTdrho_e_rhoe_def dTde_rho_rhoe_def
        esat_rho_def pow_half pow_third del: pow.simps)

theorem accessors_shift_energy_witness:
  "coefesat example_table = (Fin 1, Fin 2, Fin 3, Fin 4) \<and> (0::real) \<le> 1
   \<and> esat_rho example_table (Fin 1) = Fin 10
   \<and> P_rhoe example_table (Fin 1) (Fin 12)
       = interpolateTable example_table (Fin 1) (Fin 2) (Fin 1, Fin 2) (Fin 1, Fin 2)
           (P_rhoDe example_table)"
  using accessors_shift_energy [of example_table "Fin 1" "Fin 12" 1 2 3 4 1]
  by (simp add: example_table_def minus_su2double_def)

section \<open>Inverting the pressure\<close>

text \<open>
  C7 as stated fails. On the example table the pressure at density 1 grows from 0 to
  \<open>1e-12\<close> between the energies 11 and 12, the two lattice nodes. Inverting the
  pressure of the node at energy 12 returns the seed 11: the residual at the seed is
  already below the tolerance, which bounds the pressure residual and not the energy.
\<close>

theorem e_rhoP_roundtrip_counterexample:
  "P_rhoe example_table (Fin 1) (Fin 12) = Inr (Fin (1 / 10 ^ 12))
   \<and> e_rhoP example_table (Fin 1) (Fin (1 / 10 ^ 12)) = Inr (Fin 11)
   \<and> \<not> \<bar>Fin 11 - Fin 12\<bar> \<le> Fin (1 / 10 ^ 9) * (esat_rho example_table (Fin 1) + fst (De example_table))"
  using example_P12 example_e_rhoP
  by (simp add: example_esat example_tabs minus_su2double_def)

text \<open>
  C7, amended. When \<^verbatim>\<open>e_rhoP\<close> returns an energy, the loop was left after at most 20
  iterations at that energy, and when it was left before the cap the pressure residual
  there is not above \<open>1e-9\<close> times the final value of the loop variable \<^verbatim>\<open>x0\<close>. Nothing
  bounds the distance between the returned energy and the energy the pressure came from.
\<close>

theorem e_rhoP_residual_bound:
  assumes "e_rhoP tab rho P = Inr e'"
  shows "\<exists>t p. rootFunc_run (esat_rho tab rho + fst (De tab)) (residual (P_rhoe tab rho) P) = Inr t
           \<and> sx t = e' \<and> sn t \<le> 20
           \<and> P_rhoe tab rho e' = Inr p \<and> sy t = p - P
           \<and> (sn t < 20 \<longrightarrow> \<not> \<bar>p - P\<bar> > Fin (1 / 10 ^ 9) * sx0 t)"
proof -
  from assms obtain t
    where run: "rootFunc_run (esat_rho tab rho + fst (De tab)) (residual (P_rhoe tab rho) P) = Inr t"
      and e': "sx t = e'"
    by (auto simp: e_rhoP_def rootFunc_def Let_def bind_eq_Inr)
  from rootFunc_run_exit [OF run]
  have nc: "\<not> loop_cond t" and n: "sn t \<le> 20"
    and r: "residual (P_rhoe tab rho) P (sx t) = Inr (sy t)"
    by simp_all
  from r obtain p where p: "P_rhoe tab rho (sx t) = Inr p" "sy t = p - P"
    by (auto simp: residual_eq_Inr)
  from nc p have "sn t < 20 \<longrightarrow> \<not> \<bar>p - P\<bar> > Fin (1 / 10 ^ 9) * sx0 t"
    by (auto simp: loop_cond_def)
  with run e' n p show ?thesis by auto
qed

theorem e_rhoP_residual_bound_witness:
  "e_rhoP example_table (Fin 1) (Fin (1 / 10 ^ 12)) = Inr (Fin 11)
   \<and> (\<exists>t p. rootFunc_run (Fin 11) (residual (P_rhoe example_table (Fin 1)) (Fin (1 / 10 ^ 12))) = Inr t
         \<and> sx t = Fin 11 \<and> sn t \<le> 20 \<and> P_rhoe example_table (Fin 1) (Fin 11) = Inr p
         \<and> sy t = p - Fin (1 / 10 ^ 12)
         \<and> (sn t < 20 \<longrightarrow> \<not> \<bar>p - Fin (1 / 10 ^ 12)\<bar> > Fin (1 / 10 ^ 9) * sx0 t))"
  using e_rhoP_residual_bound [OF example_e_rhoP] example_e_rhoP
  by (simp add: example_esat example_tabs)

section \<open>Setting the state\<close>

lemma spec_invertEnergy_P: "spec_invertEnergy tab rho P P_rhoe = e_rhoP tab rho P"
  by (simp add: spec_invertEnergy_def e_rhoP_def residual_fun Let_def)

lemma spec_Prho_path_eq: "spec_Prho_path tab P rho st = SetTDState_Prho tab P rho st"
  by (simp add: spec_Prho_path_def SetTDState_Prho_def spec_invertEnergy_P)

text \<open>
  C6. \<^verbatim>\<open>SetTDState_PT\<close> is the (P, T) path of the specification: an outer root-find over
  the density seeded at \<^verbatim>\<open>Rho[0]\<close> with residual \<open>T_rhoe(\<rho>, e_rhoP(\<rho>, P)) - T\<close>, then the
  (P, \<rho>) path. When the outer root-find returns \<open>\<rho>*\<close> and the inversion at \<open>\<rho>*\<close> returns
  \<open>e*\<close>, the result is the result of \<^verbatim>\<open>SetTDState_rhoe\<close> at \<open>(\<rho>*, e*)\<close>.
\<close>

theorem SetTDState_PT_path:
  "SetTDState_PT tab P T st = spec_PT_path tab P T st
   \<and> (rho_PT tab P T = Inr rs \<longrightarrow> e_rhoP tab rs P = Inr es \<longrightarrow>
        SetTDState_PT tab P T st = SetTDState_rhoe tab rs es st)"
proof
  have "residual (\<lambda>x. bind (e_rhoP tab x P) (\<lambda>e. T_rhoe tab x e)) T
          = (\<lambda>rho. bind (spec_invertEnergy tab rho P P_rhoe) (\<lambda>e.
                    bind (T_rhoe tab rho e) (\<lambda>t. Inr (t - T))))"
    by (rule ext) (simp add: residual_def bind_assoc spec_invertEnergy_P)
  then show "SetTDState_PT tab P T st = spec_PT_path tab P T st"
    by (simp add: SetTDState_PT_def spec_PT_path_def rho_PT_def Let_def spec_Prho_path_eq)
  show "rho_PT tab P T = Inr rs \<longrightarrow> e_rhoP tab rs P = Inr es \<longrightarrow>
          SetTDState_PT tab P T st = SetTDState_rhoe tab rs es st"
    by (simp add: SetTDState_PT_def SetTDState_Prho_def)
qed

theorem SetTDState_PT_path_witness:
  "rho_PT example_table (Fin (1 / 10 ^ 12)) (Fin 300) = Inr (Fin 1)
   \<and> e_rhoP example_table (Fin 1) (Fin (1 / 10 ^ 12)) = Inr (Fin 11)
   \<and> SetTDState_PT example_table (Fin (1 / 10 ^ 12)) (Fin 300) (example_state True)
       = SetTDState_rhoe example_table (Fin 1) (Fin 11) (example_state True)
   \<and> SetTDState_PT example_table (Fin (1 / 10 ^ 12)) (Fin 300) (example_state True)
       = Inr \<lparr>ComputeEntropy = True, Density = Fin 1, StaticEnergy = Fin 11, Pressure = Fin 0,
            Temperature = Fin 300, Entropy = Fin 5, SoundSpeed2 = Fin 17,
            dPdrho_e = Fin 21, dPde_rho = Fin 25, dTdrho_e = Fin 29, dTde_rho = Fin 33,
            Cv = Fin 9, Cp = Fin 13\<rparr>"
  using SetTDState_PT_path [THEN conjunct2, rule_format, OF example_rho_PT example_e_rhoP,
      of "example_state True"]
    example_rho_PT example_e_rhoP example_SetTDState_rhoe [of True]
  by simp

text \<open>
  C8. A call of \<^verbatim>\<open>SetTDState_rhoe\<close> that returns has written the density, the energy and
  the looked-up pressure, temperature, sound speed squared, specific heats and four
  derivatives. The entropy is the looked-up entropy when the flag \<^verbatim>\<open>ComputeEntropy\<close> is
  set, and is unchanged when it is not. The flag is the argument of the constructor and the
  call does not change it.
\<close>

theorem SetTDState_rhoe_writes:
  assumes "SetTDState_rhoe tab rho e st = Inr st'"
  shows "Density st' = rho \<and> StaticEnergy st' = e
    \<and> P_rhoe tab rho e = Inr (Pressure st')
    \<and> T_rhoe tab rho e = Inr (Temperature st')
    \<and> a2_rhoe tab rho e = Inr (SoundSpeed2 st')
    \<and> cv_rhoe tab rho e = Inr (Cv st')
    \<and> cp_rhoe tab rho e = Inr (Cp st')
    \<and> dPdrho_e_rhoe tab rho e = Inr (dPdrho_e st')
    \<and> dPde_rho_rhoe tab rho e = Inr (dPde_rho st')
    \<and> dTdrho_e_rhoe tab rho e = Inr (dTdrho_e st')
    \<and> dTde_rho_rhoe tab rho e = Inr (dTde_rho st')
    \<and> (if ComputeEntropy st then s_rhoe tab rho e = Inr (Entropy st')
        else Entropy st' = Entropy st)
    \<and> ComputeEntropy st' = ComputeEntropy st
    \<and> ComputeEntropy (CTableFluid b st) = b"
proof -
  from assms obtain p t a2 pr pe tr te cv cp
    where v: "P_rhoe tab rho e = Inr p" "T_rhoe tab rho e = Inr t" "a2_rhoe tab rho e = Inr a2"
      "dPdrho_e_rhoe tab rho e = Inr pr" "dPde_rho_rhoe tab rho e = Inr pe"
      "dTdrho_e_rhoe tab rho e = Inr tr" "dTde_rho_rhoe tab rho e = Inr te"
      "cv_rhoe tab rho e = Inr cv" "cp_rhoe tab rho e = Inr cp"
    and fin: "(if ComputeEntropy st
               then bind (s_rhoe tab rho e) (\<lambda>s. Inr (st\<lparr>Density := rho, StaticEnergy := e,
                      Pressure := p, Temperature := t, SoundSpeed2 := a2, dPdrho_e := pr,
                      dPde_rho := pe, dTdrho_e := tr, dTde_rho := te, Cv := cv, Cp := cp,
                      Entropy := s\<rparr>))
               else Inr (st\<lparr>Density := rho, StaticEnergy := e,
                      Pressure := p, Temperature := t, SoundSpeed2 := a2, dPdrho_e := pr,
                      dPde_rho := pe, dTdrho_e := tr, dTde_rho := te, Cv := cv, Cp := cp\<rparr>)) = Inr st'"
    unfolding SetTDState_rhoe_def Let_def bind_eq_Inr by auto
  show ?thesis
  proof (cases "ComputeEntropy st")
    case True
    with fin obtain s where "s_rhoe tab rho e = Inr s"
      and "st' = st\<lparr>Density := rho, StaticEnergy := e,
                      Pressure := p, Temperature := t, SoundSpeed2 := a2, dPdrho_e := pr,
                      dPde_rho := pe, dTdrho_e := tr, dTde_rho := te, Cv := cv, Cp := cp,
                      Entropy := s\<rparr>"
      by (auto simp: bind_eq_Inr)
    with True v show ?thesis by (simp add: CTableFluid_def)
  next
    case False
    with fin have "st' = st\<lparr>Density := rho, StaticEnergy := e,
                      Pressure := p, Temperature := t, SoundSpeed2 := a2, dPdrho_e := pr,
                      dPde_rho := pe, dTdrho_e := tr, dTde_rho := te, Cv := cv, Cp := cp\<rparr>"
      by simp
    with False v show ?thesis by (simp add: CTableFluid_def)
  qed
qed

theorem SetTDState_rhoe_writes_witness:
  "SetTDState_rhoe example_table (Fin 1) (Fin 11) (example_state False)
     = Inr \<lparr>ComputeEntropy = False, Density = Fin 1, StaticEnergy = Fin 11, Pressure = Fin 0,
            Temperature = Fin 300, Entropy = Fin 0, SoundSpeed2 = Fin 17,
            dPdrho_e = Fin 21, dPde_rho = Fin 25, dTdrho_e = Fin 29, dTde_rho = Fin 33,
            Cv = Fin 9, Cp = Fin 13\<rparr>
   \<and> Entropy (example_state False) = Fin 0
   \<and> s_rhoe example_table (Fin 1) (Fin 11) = Inr (Fin 5)
   \<and> P_rhoe example_table (Fin 1) (Fin 11) = Inr (Fin 0)"
  using SetTDState_rhoe_writes [OF example_SetTDState_rhoe [of False], of True]
    example_SetTDState_rhoe [of False]
  by (simp add: example_state_def example_lookups)

text \<open>
  C10. A call of \<^verbatim>\<open>SetEnergy_Prho\<close> that returns has written the energy found by
  \<^verbatim>\<open>e_rhoP\<close> into \<^verbatim>\<open>StaticEnergy\<close> and has left every other field as it was.
\<close>

theorem SetEnergy_Prho_frame:
  assumes "SetEnergy_Prho tab P rho st = Inr st'"
  shows "e_rhoP tab rho P = Inr (StaticEnergy st')
    \<and> st' = st\<lparr>StaticEnergy := StaticEnergy st'\<rparr>
    \<and> Density st' = Density st \<and> Pressure st' = Pressure st
    \<and> Temperature st' = Temperature st \<and> Entropy st' = Entropy st
    \<and> SoundSpeed2 st' = SoundSpeed2 st \<and> Cv st' = Cv st \<and> Cp st' = Cp st
    \<and> dPdrho_e st' = dPdrho_e st \<and> dPde_rho st' = dPde_rho st
    \<and> dTdrho_e st' = dTdrho_e st \<and> dTde_rho st' = dTde_rho st
    \<and> ComputeEntropy st' = ComputeEntropy st"
  using assms by (auto simp: SetEnergy_Prho_def bind_eq_Inr)

theorem SetEnergy_Prho_frame_witness:
  "SetEnergy_Prho example_table (Fin (1 / 10 ^ 12)) (Fin 1) (example_state True)
     = Inr ((example_state True)\<lparr>StaticEnergy := Fin 11\<rparr>)
   \<and> e_rhoP example_table (Fin 1) (Fin (1 / 10 ^ 12)) = Inr (Fin 11)
   \<and> Density ((example_state True)\<lparr>StaticEnergy := Fin 11\<rparr>) = Density (example_state True)"
  using SetEnergy_Prho_frame [OF example_SetEnergy_Prho] example_SetEnergy_Prho
  by simp

end
